theory Spec2Isabelle
  imports Main
begin

section \<open>Values, errors and the host\<close>

text \<open>
  The client is dynamically typed Python: every argument of an operation may be
  \<^verbatim>\<open>None\<close>, a boolean, an integer or a string, and the code branches on the
  truth value of such arguments. A string is a list of 8-bit characters.
\<close>

datatype pyval = PNone | PBool bool | PInt int | PStr string

fun truthy :: "pyval \<Rightarrow> bool" where
  "truthy PNone = False"
| "truthy (PBool b) = b"
| "truthy (PInt n) = (n \<noteq> 0)"
| "truthy (PStr s) = (s \<noteq> [])"

definition digit_char :: "nat \<Rightarrow> char" where
  "digit_char d = ''0123456789'' ! d"

fun nat_digits :: "nat \<Rightarrow> string" where
  "nat_digits n = (if n < 10 then [digit_char n] else nat_digits (n div 10) @ [digit_char (n mod 10)])"

declare nat_digits.simps [simp del]

text \<open>\<^verbatim>\<open>str(c)\<close> on the values above.\<close>

fun py_str :: "pyval \<Rightarrow> string" where
  "py_str PNone = ''None''"
| "py_str (PBool b) = (if b then ''True'' else ''False'')"
| "py_str (PInt n) = (if n < 0 then CHR ''-'' # nat_digits (nat (- n)) else nat_digits (nat n))"
| "py_str (PStr s) = s"

text \<open>\<^verbatim>\<open>sep.join(xs)\<close>.\<close>

fun py_join :: "string \<Rightarrow> string list \<Rightarrow> string" where
  "py_join sep [] = []"
| "py_join sep [x] = x"
| "py_join sep (x # y # ys) = x @ sep @ py_join sep (y # ys)"

text \<open>
  The exceptions that leave the client. \<open>LKVMException\<close> is the client's own
  execution error and carries its message; \<open>NameError\<close> carries the name that is
  not bound in the module.
\<close>

datatype error =
    LKVMException string
  | OSError
  | NameError string
  | IndexError
  | ValueError
  | TypeError

text \<open>
  What a foreground child process does, seen from \<^verbatim>\<open>subprocess.Popen\<close> and
  \<^verbatim>\<open>communicate()\<close>: the spawn itself raises \<^verbatim>\<open>OSError\<close>, or
  \<^verbatim>\<open>communicate()\<close> raises \<^verbatim>\<open>OSError\<close>, or the process runs to its end
  and leaves its standard output and standard error.
\<close>

datatype proc_outcome = SpawnFails | CommunicateFails | Completed string string

text \<open>
  The host: the effective user id (\<open>None\<close> where \<^verbatim>\<open>os\<close> has no
  \<^verbatim>\<open>geteuid\<close>), the behaviour of a foreground process given its argument vector,
  and the process table as \<^verbatim>\<open>psutil.Process(pid).cmdline()\<close> reads it
  (\<open>None\<close> where psutil raises \<^verbatim>\<open>NoSuchProcess\<close>).

  The host also stands for the interpreter that runs the client. The module imports
  \<^verbatim>\<open>six\<close> and is written for Python 2 and Python 3 alike, and three things it
  relies on are the interpreter's, not its own:
  \<^item> \<open>pipes_text\<close>: whether \<^verbatim>\<open>communicate()\<close> hands the captured output
    back as \<^verbatim>\<open>str\<close>. It does on Python 2. On Python 3 the pipes, opened without
    a text mode, deliver \<^verbatim>\<open>bytes\<close>, and \<^verbatim>\<open>output.split('\n')\<close> with
    its \<^verbatim>\<open>str\<close> separator raises \<^verbatim>\<open>TypeError\<close>.
  \<^item> \<open>int_of_str\<close>: the builtin \<^verbatim>\<open>int\<close> on a string, \<open>None\<close> where it
    raises \<^verbatim>\<open>ValueError\<close>. Which spellings it accepts differs between
    interpreters; no definition below fixes them.
  \<^item> \<open>class_error\<close>: the builtin \<^verbatim>\<open>type('LKVMInstance', (object,), props)\<close>
    on a dictionary of strings: \<open>None\<close> where it creates the class, and the error
    where it raises one (as it does for a \<^verbatim>\<open>__slots__\<close> entry that is not a
    list of identifiers).
\<close>

record host =
  euid :: "nat option"
  run_proc :: "string list \<Rightarrow> proc_outcome"
  cmdline_of :: "int \<Rightarrow> string list option"
  pipes_text :: bool
  int_of_str :: "string \<Rightarrow> int option"
  class_error :: "(string \<rightharpoonup> string) \<Rightarrow> error option"

record client =
  root_helper :: pyval

text \<open>
  The observable trace of an operation: each entry into the execution primitive with the
  subcommand, the argument vector and the background flag it was given, and each process
  it spawns (through the shell with a command line, or directly with an argument vector).
\<close>

datatype event =
    Invoked string "pyval list" bool
  | Spawned_shell string
  | Spawned_argv "string list"

definition LKVM_PATH :: string where
  "LKVM_PATH = ''/usr/bin/lkvm''"

section \<open>The execution primitive\<close>

text \<open>
  \<^verbatim>\<open>Client._execute(cmd, args, background=...)\<close>. The result is \<open>None\<close> where the
  method returns nothing and \<open>Some out\<close> where it returns the captured standard output.
  The handler of \<^verbatim>\<open>OSError\<close> around \<^verbatim>\<open>communicate()\<close> evaluates
  \<^verbatim>\<open>isinstance(err, ProcessExecutionError)\<close>; the module binds no such name, so
  the handler itself raises \<^verbatim>\<open>NameError\<close>. A spawn through the shell is taken to
  succeed.
\<close>

definition execute ::
  "host \<Rightarrow> client \<Rightarrow> string \<Rightarrow> pyval list \<Rightarrow> bool \<Rightarrow> event list \<times> (error + string option)" where
  "execute h c cmd args background =
    (if (case euid h of None \<Rightarrow> False | Some u \<Rightarrow> u \<noteq> 0) \<and> \<not> truthy (root_helper c)
     then ([Invoked cmd args background], Inr None)
     else
       let command = [PStr LKVM_PATH];
           command = (if truthy (root_helper c) then [root_helper c] @ command else command);
           command = command @ [PStr cmd];
           command = command @ args;
           command = map py_str command
       in if background then
            (let command = ''nohup'' # command;
                 line = py_join '' '' command @ '' >/dev/null 2>&1''
             in ([Invoked cmd args background, Spawned_shell line], Inr None))
          else
            (case run_proc h command of
               SpawnFails \<Rightarrow> ([Invoked cmd args background], Inl OSError)
             | CommunicateFails \<Rightarrow>
                 ([Invoked cmd args background, Spawned_argv command],
                  Inl (NameError ''ProcessExecutionError''))
             | Completed out err \<Rightarrow>
                 ([Invoked cmd args background, Spawned_argv command],
                  if err \<noteq> [] then Inl (LKVMException err) else Inr (Some out))))"


text \<open>
  The operations below call the primitive and drop what it returns: they return
  \<^verbatim>\<open>None\<close> unless the primitive raised.
\<close>

definition returning_none :: "event list \<times> (error + 'a) \<Rightarrow> event list \<times> (error + unit)" where
  "returning_none r = (fst r, case snd r of Inl e \<Rightarrow> Inl e | Inr _ \<Rightarrow> Inr ())"

section \<open>Pause, resume, stop and balloon\<close>

definition pause :: "host \<Rightarrow> client \<Rightarrow> pyval \<Rightarrow> pyval \<Rightarrow> event list \<times> (error + unit)" where
  "pause h c all_sel name_sel =
    (let params = [] in
     if truthy all_sel then
       (let params = params @ [PStr ''--all'']
        in returning_none (execute h c ''pause'' params False))
     else if truthy name_sel then
       (let params = params @ [PStr ''--name'', name_sel]
        in returning_none (execute h c ''pause'' params False))
     else ([], Inr ()))"

definition resume :: "host \<Rightarrow> client \<Rightarrow> pyval \<Rightarrow> pyval \<Rightarrow> event list \<times> (error + unit)" where
  "resume h c all_sel name_sel =
    (let params = [] in
     if truthy all_sel then
       (let params = params @ [PStr ''--all'']
        in returning_none (execute h c ''resume'' params False))
     else if truthy name_sel then
       (let params = params @ [PStr ''--name'', name_sel]
        in returning_none (execute h c ''resume'' params False))
     else ([], Inr ()))"

definition stop :: "host \<Rightarrow> client \<Rightarrow> pyval \<Rightarrow> pyval \<Rightarrow> event list \<times> (error + unit)" where
  "stop h c all_sel name_sel =
    (let params = [] in
     if truthy all_sel then
       (let params = params @ [PStr ''--all'']
        in returning_none (execute h c ''stop'' params False))
     else if truthy name_sel then
       (let params = params @ [PStr ''--name'', name_sel]
        in returning_none (execute h c ''stop'' params False))
     else ([], Inr ()))"

text \<open>
  \<^verbatim>\<open>Client.balloon(name, amount, balloon_options)\<close>: the vector it builds, and the
  call that hands it to the primitive in the foreground.
\<close>

definition balloon_params :: "pyval \<Rightarrow> pyval \<Rightarrow> pyval \<Rightarrow> pyval list" where
  "balloon_params name_sel amount balloon_options =
    (let params = [PStr ''name'', name_sel] in
     if balloon_options = PStr ''inflate'' then params @ [PStr ''--inflate'', amount]
     else if balloon_options = PStr ''deflate'' then params @ [PStr ''--deflate'', amount]
     else params)"

definition balloon :: "host \<Rightarrow> client \<Rightarrow> pyval \<Rightarrow> pyval \<Rightarrow> pyval \<Rightarrow> event list \<times> (error + unit)" where
  "balloon h c name_sel amount balloon_options =
    returning_none (execute h c ''balloon'' (balloon_params name_sel amount balloon_options) False)"

section \<open>Run and sandbox\<close>

text \<open>
  The arguments of \<^verbatim>\<open>Client.run\<close> and \<^verbatim>\<open>Client.sandbox\<close>, one field per
  parameter of the two methods (the field \<open>arg_x\<close> is the parameter \<^verbatim>\<open>x\<close>).
\<close>

record run_args =
  arg_cpus :: pyval
  arg_mem :: pyval
  arg_shmem :: pyval
  arg_console :: pyval
  arg_kernel :: pyval
  arg_params :: pyval
  arg_network :: pyval
  arg_name :: pyval
  arg_disk :: pyval
  arg_balloon :: pyval
  arg_vnc :: pyval
  arg_gtk :: pyval
  arg_sdl :: pyval
  arg_rng :: pyval
  arg_plan9 :: pyval
  arg_dev :: pyval
  arg_tty :: pyval
  arg_sandbox :: pyval
  arg_hugetlbs :: pyval
  arg_initrd :: pyval
  arg_firmware :: pyval
  arg_no_dhcp :: pyval

text \<open>\<^verbatim>\<open>'"%s"' % v\<close>: the text of \<open>v\<close> between two double-quote characters.\<close>

definition quoted :: "pyval \<Rightarrow> string" where
  "quoted v = [CHR 0x22] @ py_str v @ [CHR 0x22]"

text \<open>The vector \<^verbatim>\<open>_params\<close> that the body of \<^verbatim>\<open>Client.run\<close> builds.\<close>

definition run_params :: "run_args \<Rightarrow> pyval list" where
  "run_params a =
    (let p = [];
         p = p @ [PStr ''--cpus'', arg_cpus a, PStr ''--mem'', arg_mem a, PStr ''--shmem'', arg_shmem a];
         p = (if truthy (arg_name a) then p @ [PStr ''--name'', arg_name a] else p);
         p = (if arg_console a \<in> set [PStr ''serial'', PStr ''virtio'', PStr ''hv'']
              then p @ [PStr ''--console'', arg_console a] else p);
         p = (if truthy (arg_balloon a) then p @ [PStr ''--balloon''] else p);
         p = (if truthy (arg_vnc a) then p @ [PStr ''--vnc''] else p);
         p = (if truthy (arg_gtk a) then p @ [PStr ''--gtk''] else p);
         p = (if truthy (arg_sdl a) then p @ [PStr ''--sdl''] else p);
         p = (if truthy (arg_rng a) then p @ [PStr ''--rng''] else p);
         p = (if truthy (arg_plan9 a) then p @ [PStr ''--9p''] else p);
         p = (if truthy (arg_disk a) then p @ [PStr ''--disk'', arg_disk a] else p);
         p = (if truthy (arg_dev a) then p @ [PStr ''--dev'', arg_dev a] else p);
         p = (if truthy (arg_tty a) then p @ [PStr ''--tty'', arg_tty a] else p);
         p = (if truthy (arg_sandbox a) then p @ [PStr ''--sandbox'', arg_sandbox a] else p);
         p = (if truthy (arg_hugetlbs a) then p @ [PStr ''--hugetlbs'', arg_hugetlbs a] else p);
         p = p @ [PStr ''--kernel'', arg_kernel a, PStr ''--params'', PStr (quoted (arg_params a))];
         p = (if truthy (arg_initrd a) then p @ [PStr ''--initrd'', arg_initrd a] else p);
         p = (if truthy (arg_firmware a) then p @ [PStr ''--firmware'', arg_firmware a] else p);
         p = p @ [PStr ''--network'', arg_network a];
         p = (if truthy (arg_no_dhcp a) then p @ [PStr ''--no-dhcp''] else p)
     in p)"

definition run :: "host \<Rightarrow> client \<Rightarrow> run_args \<Rightarrow> event list \<times> (error + unit)" where
  "run h c a = returning_none (execute h c ''run'' (run_params a) True)"

text \<open>The vector \<^verbatim>\<open>_params\<close> that the body of \<^verbatim>\<open>Client.sandbox\<close> builds.\<close>

definition sandbox_params :: "run_args \<Rightarrow> pyval list" where
  "sandbox_params a =
    (let p = [];
         p = p @ [PStr ''--cpus'', arg_cpus a, PStr ''--mem'', arg_mem a, PStr ''--shmem'', arg_shmem a];
         p = (if truthy (arg_name a) then p @ [PStr ''--name'', arg_name a] else p);
         p = (if arg_console a \<in> set [PStr ''serial'', PStr ''virtio'', PStr ''hv'']
              then p @ [PStr ''--console'', arg_console a] else p);
         p = (if truthy (arg_balloon a) then p @ [PStr ''--balloon''] else p);
         p = (if truthy (arg_vnc a) then p @ [PStr ''--vnc''] else p);
         p = (if truthy (arg_gtk a) then p @ [PStr ''--gtk''] else p);
         p = (if truthy (arg_sdl a) then p @ [PStr ''--sdl''] else p);
         p = (if truthy (arg_rng a) then p @ [PStr ''--rng''] else p);
         p = (if truthy (arg_plan9 a) then p @ [PStr ''--9p''] else p);
         p = (if truthy (arg_disk a) then p @ [PStr ''--disk'', arg_disk a] else p);
         p = (if truthy (arg_dev a) then p @ [PStr ''--dev'', arg_dev a] else p);
         p = (if truthy (arg_tty a) then p @ [PStr ''--tty'', arg_tty a] else p);
         p = (if truthy (arg_sandbox a) then p @ [PStr ''--sandbox'', arg_sandbox a] else p);
         p = (if truthy (arg_hugetlbs a) then p @ [PStr ''--hugetlbs'', arg_hugetlbs a] else p);
         p = p @ [PStr ''--kernel'', arg_kernel a, PStr ''--params'', PStr (quoted (arg_params a))];
         p = (if truthy (arg_initrd a) then p @ [PStr ''--initrd'', arg_initrd a] else p);
         p = (if truthy (arg_firmware a) then p @ [PStr ''--firmware'', arg_firmware a] else p);
         p = p @ [PStr ''--network'', arg_network a];
         p = (if truthy (arg_no_dhcp a) then p @ [PStr ''--no-dhcp''] else p)
     in p)"

definition sandbox :: "host \<Rightarrow> client \<Rightarrow> run_args \<Rightarrow> event list \<times> (error + unit)" where
  "sandbox h c a = returning_none (execute h c ''sandbox'' (sandbox_params a) True)"


section \<open>Listing instances\<close>

text \<open>\<^verbatim>\<open>s.split(sep)\<close> for a separator of one character.\<close>

fun py_split_on :: "char \<Rightarrow> string \<Rightarrow> string list" where
  "py_split_on sep [] = [[]]"
| "py_split_on sep (c # cs) =
     (if c = sep then [] # py_split_on sep cs
      else (case py_split_on sep cs of [] \<Rightarrow> [[c]] | w # ws \<Rightarrow> (c # w) # ws))"

text \<open>
  The listing is split only where the pipes deliver \<^verbatim>\<open>str\<close>, that is on
  Python 2, whose strings are byte strings. Their whitespace is space, tab, line feed,
  vertical tab, form feed and carriage return.
\<close>

definition is_space :: "char \<Rightarrow> bool" where
  "is_space ch = (ch \<in> set [CHR 0x20, CHR 0x09, CHR 0x0A, CHR 0x0B, CHR 0x0C, CHR 0x0D])"

text \<open>
  \<^verbatim>\<open>s.split()\<close>: the maximal runs of characters that are not whitespace, in
  order. The first argument is the field being read.
\<close>

fun split_fields :: "string \<Rightarrow> string \<Rightarrow> string list" where
  "split_fields cur [] = (if cur = [] then [] else [cur])"
| "split_fields cur (ch # cs) =
     (if is_space ch then (if cur = [] then split_fields [] cs else cur # split_fields [] cs)
      else split_fields (cur @ [ch]) cs)"

definition py_split :: "string \<Rightarrow> string list" where
  "py_split s = split_fields [] s"

text \<open>
  An instance is the class object that \<^verbatim>\<open>type('LKVMInstance', (object,), props)\<close>
  creates, seen as the mapping from its attribute names to their values.
\<close>

type_synonym lkvm_instance = "string \<rightharpoonup> string"

text \<open>
  The dictionary comprehension
  \<^verbatim>\<open>{args[i][2:]: args[i+1] for i in range(0, len(args), 2)}\<close>, with \<open>i\<close> the
  current index and \<open>props\<close> the dictionary built so far. Reading
  \<^verbatim>\<open>args[i+1]\<close> past the end of the list raises \<^verbatim>\<open>IndexError\<close>.
\<close>

function props_loop :: "string list \<Rightarrow> nat \<Rightarrow> lkvm_instance \<Rightarrow> error + lkvm_instance" where
  "props_loop args i props =
    (if i < length args then
       (if i + 1 < length args
        then props_loop args (i + 2) (props(drop 2 (args ! i) \<mapsto> args ! (i + 1)))
        else Inl IndexError)
     else Inr props)"
  by pat_completeness auto
termination
  by (relation "measure (\<lambda>(args, i, props). length args - i)") auto

declare props_loop.simps [simp del]

definition cmdline_props :: "string list \<Rightarrow> error + lkvm_instance" where
  "cmdline_props args = props_loop args 0 Map.empty"

text \<open>
  The process id handed to \<^verbatim>\<open>Client._get_instance_info\<close>: a string or an
  integer. \<open>pid_number\<close> is the first statement of the method,
  \<^verbatim>\<open>if isinstance(pid, six.string_types): pid = int(pid)\<close>.
\<close>

datatype pid_arg = PidStr string | PidInt int

definition pid_number :: "host \<Rightarrow> pid_arg \<Rightarrow> int option" where
  "pid_number h pid = (case pid of PidStr s \<Rightarrow> int_of_str h s | PidInt n \<Rightarrow> Some n)"

text \<open>
  \<^verbatim>\<open>Client._get_instance_info(pid)\<close>. The handler is written
  \<^verbatim>\<open>except NoSuchProcess:\<close>, and the module imports only \<^verbatim>\<open>psutil\<close>, never
  the name \<^verbatim>\<open>NoSuchProcess\<close> itself: when psutil raises, matching the exception
  against the handler evaluates the unbound name and raises \<^verbatim>\<open>NameError\<close>, so the
  \<^verbatim>\<open>raise LKVMException("PID %s not found" % pid)\<close> of the handler's body is
  never reached. The last statement creates the class and raises what
  \<^verbatim>\<open>type\<close> raises.
\<close>

definition get_instance_info :: "host \<Rightarrow> pid_arg \<Rightarrow> error + lkvm_instance" where
  "get_instance_info h pid =
    (case pid_number h pid of
       None \<Rightarrow> Inl ValueError
     | Some n \<Rightarrow>
         (case cmdline_of h n of
            None \<Rightarrow> Inl (NameError ''NoSuchProcess'')
          | Some cl \<Rightarrow>
              (case cmdline_props (drop 2 cl) of
                 Inl e \<Rightarrow> Inl e
               | Inr props \<Rightarrow>
                   (case class_error h props of
                      Some e \<Rightarrow> Inl e
                    | None \<Rightarrow> Inr props))))"

text \<open>
  The body of the loop of \<^verbatim>\<open>Client.list_instances\<close> for one line of the output:
  each of \<^verbatim>\<open>ins[0]\<close>, \<^verbatim>\<open>ins[1]\<close>, \<^verbatim>\<open>ins[2]\<close> raises
  \<^verbatim>\<open>IndexError\<close> when the line has too few fields.
\<close>

definition instance_of_line :: "host \<Rightarrow> string \<Rightarrow> error + lkvm_instance" where
  "instance_of_line h result =
    (let ins = py_split result in
     if length ins < 1 then Inl IndexError
     else
       (case get_instance_info h (PidStr (ins ! 0)) of
          Inl e \<Rightarrow> Inl e
        | Inr inst \<Rightarrow>
            (let inst = inst(''pid'' \<mapsto> ins ! 0) in
             if length ins < 2 then Inl IndexError
             else
               (let inst = inst(''name'' \<mapsto> ins ! 1) in
                if length ins < 3 then Inl IndexError
                else Inr (inst(''state'' \<mapsto> ins ! 2))))))"

text \<open>The loop itself: \<open>instances\<close> is the list built so far.\<close>

fun instances_loop :: "host \<Rightarrow> lkvm_instance list \<Rightarrow> string list \<Rightarrow> error + lkvm_instance list" where
  "instances_loop h instances [] = Inr instances"
| "instances_loop h instances (result # results) =
     (case instance_of_line h result of
        Inl e \<Rightarrow> Inl e
      | Inr inst \<Rightarrow> instances_loop h (instances @ [inst]) results)"

text \<open>
  \<^verbatim>\<open>Client.list_instances(run, rootfs)\<close>. A non-empty output is split with
  \<^verbatim>\<open>output.split('\n')\<close>, which raises \<^verbatim>\<open>TypeError\<close> where the output
  is \<^verbatim>\<open>bytes\<close>. The slice \<^verbatim>\<open>results[2:-1]\<close> is taken only when
  \<^verbatim>\<open>len(results) > 2\<close>, where it runs from index 2 up to, and not including,
  the last index.
\<close>

definition list_instances ::
  "host \<Rightarrow> client \<Rightarrow> pyval \<Rightarrow> pyval \<Rightarrow> event list \<times> (error + lkvm_instance list)" where
  "list_instances h c run_sel rootfs_sel =
    (let params = [];
         params = (if truthy run_sel then params @ [PStr ''--run''] else params);
         params = (if truthy rootfs_sel then params @ [PStr ''--rootfs''] else params);
         r = execute h c ''list'' params False
     in (fst r,
         case snd r of
           Inl e \<Rightarrow> Inl e
         | Inr output \<Rightarrow>
             (case output of
                None \<Rightarrow> Inr []
              | Some text \<Rightarrow>
                  if text \<noteq> [] then
                    (if pipes_text h then
                       (let results = py_split_on (CHR 0x0A) text in
                        if length results > 2
                        then instances_loop h [] (drop 2 (take (length results - 1) results))
                        else Inr [])
                     else Inl TypeError)
                  else Inr [])))"

section \<open>Concrete hosts and clients\<close>

text \<open>
  The concrete hosts read a process id as a decimal literal: surrounding whitespace is
  dropped, then an optional sign and one or more decimal digits are read.
\<close>

definition is_digit :: "char \<Rightarrow> bool" where
  "is_digit ch = (ch \<in> set ''0123456789'')"

definition digit_val :: "char \<Rightarrow> nat" where
  "digit_val ch = of_char ch - 48"

definition strip_space :: "string \<Rightarrow> string" where
  "strip_space s = rev (dropWhile is_space (rev (dropWhile is_space s)))"

definition digits_val :: "string \<Rightarrow> nat" where
  "digits_val ds = foldl (\<lambda>acc ch. 10 * acc + digit_val ch) 0 ds"

definition decimal_literal :: "string \<Rightarrow> int option" where
  "decimal_literal s =
    (let t = strip_space s;
         neg = (t \<noteq> [] \<and> hd t = CHR ''-'');
         ds = (if t \<noteq> [] \<and> (hd t = CHR ''-'' \<or> hd t = CHR ''+'') then tl t else t)
     in if ds \<noteq> [] \<and> list_all is_digit ds
        then Some (if neg then - int (digits_val ds) else int (digits_val ds))
        else None)"

text \<open>
  Hosts and clients on which the theorems below are exercised: an unprivileged host
  whose processes print \<open>out\<close> and nothing on standard error, a root host whose
  processes fail on standard error, a client without an elevation helper and one with
  \<open>sudo\<close>. Every host runs Python 2: its pipes deliver \<^verbatim>\<open>str\<close>. No command
  line in a process table below carries a flag from which the class cannot be created,
  so class creation raises nothing on these hosts.
\<close>

definition user_host :: host where
  "user_host =
     \<lparr>euid = Some 1000, run_proc = (\<lambda>_. Completed ''out'' []), cmdline_of = (\<lambda>_. None),
      pipes_text = True, int_of_str = decimal_literal, class_error = (\<lambda>_. None)\<rparr>"

definition failing_host :: host where
  "failing_host =
     \<lparr>euid = Some 0, run_proc = (\<lambda>_. Completed ''partial'' ''boom''), cmdline_of = (\<lambda>_. None),
      pipes_text = True, int_of_str = decimal_literal, class_error = (\<lambda>_. None)\<rparr>"

definition plain_client :: client where
  "plain_client = \<lparr>root_helper = PNone\<rparr>"

definition sudo_client :: client where
  "sudo_client = \<lparr>root_helper = PStr ''sudo''\<rparr>"

text \<open>
  The output of \<^verbatim>\<open>lkvm list\<close> with two header lines, two instances and the
  final newline, and three root hosts that print it: one whose process table knows both
  instances, one on which the second instance has exited since, and one whose first
  instance was started with a flag that takes no value.
\<close>

definition list_output :: string where
  "list_output =
     ''PID NAME STATE'' @ [CHR 0x0A] @ ''--------------'' @ [CHR 0x0A]
     @ ''12 vm1 running'' @ [CHR 0x0A] @ ''34 vm2 paused'' @ [CHR 0x0A]"

definition root_host :: host where
  "root_host =
     \<lparr>euid = Some 0,
      run_proc = (\<lambda>_. Completed list_output []),
      cmdline_of = (\<lambda>n. if n = 12 then Some [''lkvm'', ''run'', ''--cpus'', ''2'', ''--name'', ''vm1'']
                        else if n = 34 then Some [''lkvm'', ''run'', ''--name'', ''vm2'']
                        else None),
      pipes_text = True, int_of_str = decimal_literal, class_error = (\<lambda>_. None)\<rparr>"

definition stale_host :: host where
  "stale_host =
     \<lparr>euid = Some 0,
      run_proc = (\<lambda>_. Completed list_output []),
      cmdline_of = (\<lambda>n. if n = 12 then Some [''lkvm'', ''run'', ''--cpus'', ''2'', ''--name'', ''vm1'']
                        else None),
      pipes_text = True, int_of_str = decimal_literal, class_error = (\<lambda>_. None)\<rparr>"

definition odd_host :: host where
  "odd_host =
     \<lparr>euid = Some 0,
      run_proc = (\<lambda>_. Completed list_output []),
      cmdline_of = (\<lambda>n. if n = 12 then Some [''lkvm'', ''run'', ''--name'', ''vm1'', ''--balloon'']
                        else if n = 34 then Some [''lkvm'', ''run'', ''--name'', ''vm2'']
                        else None),
      pipes_text = True, int_of_str = decimal_literal, class_error = (\<lambda>_. None)\<rparr>"

text \<open>Arguments of a call of \<^verbatim>\<open>run\<close> that names no guest and sets no option.\<close>

definition sample_args :: run_args where
  "sample_args =
     \<lparr>arg_cpus = PInt 2, arg_mem = PInt 512, arg_shmem = PStr ''16MB'',
      arg_console = PStr ''serial'', arg_kernel = PStr ''/boot/vmlinuz'',
      arg_params = PStr ''root=/dev/vda rw'', arg_network = PStr ''virtio'',
      arg_name = PNone, arg_disk = PNone, arg_balloon = PBool False, arg_vnc = PBool False,
      arg_gtk = PBool False, arg_sdl = PBool False, arg_rng = PBool False,
      arg_plan9 = PBool False, arg_dev = PNone, arg_tty = PNone, arg_sandbox = PNone,
      arg_hugetlbs = PNone, arg_initrd = PNone, arg_firmware = PNone,
      arg_no_dhcp = PBool False\<rparr>"

text \<open>The same call with a console that lkvm does not know.\<close>

definition telnet_args :: run_args where
  "telnet_args = sample_args\<lparr>arg_console := PStr ''telnet''\<rparr>"

section \<open>Auxiliary facts\<close>

lemma extend_if: "(if b then p @ xs else p) = p @ (if b then xs else [])"
  by simp

lemma run_params_segments:
  "run_params a =
     [PStr ''--cpus'', arg_cpus a, PStr ''--mem'', arg_mem a, PStr ''--shmem'', arg_shmem a]
     @ (if truthy (arg_name a) then [PStr ''--name'', arg_name a] else [])
     @ (if arg_console a \<in> set [PStr ''serial'', PStr ''virtio'', PStr ''hv'']
        then [PStr ''--console'', arg_console a] else [])
     @ (if truthy (arg_balloon a) then [PStr ''--balloon''] else [])
     @ (if truthy (arg_vnc a) then [PStr ''--vnc''] else [])
     @ (if truthy (arg_gtk a) then [PStr ''--gtk''] else [])
     @ (if truthy (arg_sdl a) then [PStr ''--sdl''] else [])
     @ (if truthy (arg_rng a) then [PStr ''--rng''] else [])
     @ (if truthy (arg_plan9 a) then [PStr ''--9p''] else [])
     @ (if truthy (arg_disk a) then [PStr ''--disk'', arg_disk a] else [])
     @ (if truthy (arg_dev a) then [PStr ''--dev'', arg_dev a] else [])
     @ (if truthy (arg_tty a) then [PStr ''--tty'', arg_tty a] else [])
     @ (if truthy (arg_sandbox a) then [PStr ''--sandbox'', arg_sandbox a] else [])
     @ (if truthy (arg_hugetlbs a) then [PStr ''--hugetlbs'', arg_hugetlbs a] else [])
     @ [PStr ''--kernel'', arg_kernel a, PStr ''--params'', PStr (quoted (arg_params a))]
     @ (if truthy (arg_initrd a) then [PStr ''--initrd'', arg_initrd a] else [])
     @ (if truthy (arg_firmware a) then [PStr ''--firmware'', arg_firmware a] else [])
     @ [PStr ''--network'', arg_network a]
     @ (if truthy (arg_no_dhcp a) then [PStr ''--no-dhcp''] else [])"
  unfolding run_params_def
  by (simp only: Let_def extend_if append_assoc append_Nil)

lemma sandbox_params_run_params: "sandbox_params a = run_params a"
  by (simp only: sandbox_params_def run_params_def)

lemma execute_enters: "\<exists>rest. fst (execute h c cmd args background) = Invoked cmd args background # rest"
  by (simp add: execute_def Let_def split: proc_outcome.splits)

lemma returning_none_fst: "fst (returning_none r) = fst r"
  by (simp add: returning_none_def)

lemma sample_run_params:
  "run_params sample_args =
     [PStr ''--cpus'', PInt 2, PStr ''--mem'', PInt 512, PStr ''--shmem'', PStr ''16MB'',
      PStr ''--console'', PStr ''serial'', PStr ''--kernel'', PStr ''/boot/vmlinuz'',
      PStr ''--params'', PStr (CHR 0x22 # ''root=/dev/vda rw'' @ [CHR 0x22]),
      PStr ''--network'', PStr ''virtio'']"
  by (simp add: run_params_segments sample_args_def quoted_def)

lemma nat_digits_2: "nat_digits 2 = ''2''"
  by (simp add: nat_digits.simps digit_char_def)

lemma nat_digits_512: "nat_digits 512 = ''512''"
  by (simp add: nat_digits.simps digit_char_def)

lemma mem_set_if: "x \<in> set (if b then xs else []) \<longleftrightarrow> b \<and> x \<in> set xs"
  by simp

lemma run_params_membership:
  assumes "\<forall>v \<in> {arg_cpus a, arg_mem a, arg_shmem a, arg_name a, arg_disk a, arg_dev a, arg_tty a,
               arg_sandbox a, arg_hugetlbs a, arg_kernel a, arg_initrd a, arg_firmware a,
               arg_network a}.
          v \<notin> PStr ` {''--name'', ''--console'', ''--balloon'', ''--vnc'', ''--gtk'', ''--sdl'',
                        ''--rng'', ''--9p'', ''--disk'', ''--dev'', ''--tty'', ''--sandbox'',
                        ''--hugetlbs'', ''--initrd'', ''--firmware'', ''--no-dhcp''}"
  shows "(PStr ''--name'' \<in> set (run_params a) \<longleftrightarrow> truthy (arg_name a))
      \<and> (PStr ''--console'' \<in> set (run_params a)
            \<longleftrightarrow> arg_console a \<in> set [PStr ''serial'', PStr ''virtio'', PStr ''hv''])
      \<and> (PStr ''--balloon'' \<in> set (run_params a) \<longleftrightarrow> truthy (arg_balloon a))
      \<and> (PStr ''--vnc'' \<in> set (run_params a) \<longleftrightarrow> truthy (arg_vnc a))
      \<and> (PStr ''--gtk'' \<in> set (run_params a) \<longleftrightarrow> truthy (arg_gtk a))
      \<and> (PStr ''--sdl'' \<in> set (run_params a) \<longleftrightarrow> truthy (arg_sdl a))
      \<and> (PStr ''--rng'' \<in> set (run_params a) \<longleftrightarrow> truthy (arg_rng a))
      \<and> (PStr ''--9p'' \<in> set (run_params a) \<longleftrightarrow> truthy (arg_plan9 a))
      \<and> (PStr ''--disk'' \<in> set (run_params a) \<longleftrightarrow> truthy (arg_disk a))
      \<and> (PStr ''--dev'' \<in> set (run_params a) \<longleftrightarrow> truthy (arg_dev a))
      \<and> (PStr ''--tty'' \<in> set (run_params a) \<longleftrightarrow> truthy (arg_tty a))
      \<and> (PStr ''--sandbox'' \<in> set (run_params a) \<longleftrightarrow> truthy (arg_sandbox a))
      \<and> (PStr ''--hugetlbs'' \<in> set (run_params a) \<longleftrightarrow> truthy (arg_hugetlbs a))
      \<and> (PStr ''--initrd'' \<in> set (run_params a) \<longleftrightarrow> truthy (arg_initrd a))
      \<and> (PStr ''--firmware'' \<in> set (run_params a) \<longleftrightarrow> truthy (arg_firmware a))
      \<and> (PStr ''--no-dhcp'' \<in> set (run_params a) \<longleftrightarrow> truthy (arg_no_dhcp a))"
proof -
  have c: "\<And>v s. ((v = PStr ''serial'' \<or> v = PStr ''virtio'' \<or> v = PStr ''hv'')
                   \<and> PStr (CHR ''-'' # s) = v) = False"
    by auto
  have q: "\<And>s. PStr (CHR ''-'' # s) \<noteq> PStr (quoted (arg_params a))"
    by (simp add: quoted_def)
  from assms have n: "\<And>f. f \<in> {''--name'', ''--console'', ''--balloon'', ''--vnc'', ''--gtk'', ''--sdl'',
                        ''--rng'', ''--9p'', ''--disk'', ''--dev'', ''--tty'', ''--sandbox'',
                        ''--hugetlbs'', ''--initrd'', ''--firmware'', ''--no-dhcp''} \<Longrightarrow>
      PStr f \<noteq> arg_cpus a \<and> PStr f \<noteq> arg_mem a \<and> PStr f \<noteq> arg_shmem a \<and> PStr f \<noteq> arg_name a
      \<and> PStr f \<noteq> arg_disk a \<and> PStr f \<noteq> arg_dev a \<and> PStr f \<noteq> arg_tty a \<and> PStr f \<noteq> arg_sandbox a
      \<and> PStr f \<noteq> arg_hugetlbs a \<and> PStr f \<noteq> arg_kernel a \<and> PStr f \<noteq> arg_initrd a
      \<and> PStr f \<noteq> arg_firmware a \<and> PStr f \<noteq> arg_network a"
    by (metis (no_types, lifting) image_eqI insertCI)
  show ?thesis
    unfolding run_params_segments set_append mem_set_if Un_iff
    using q
      n [of "''--name''"]
      n [of "''--console''"]
      n [of "''--balloon''"]
      n [of "''--vnc''"]
      n [of "''--gtk''"]
      n [of "''--sdl''"]
      n [of "''--rng''"]
      n [of "''--9p''"]
      n [of "''--disk''"]
      n [of "''--dev''"]
      n [of "''--tty''"]
      n [of "''--sandbox''"]
      n [of "''--hugetlbs''"]
      n [of "''--initrd''"]
      n [of "''--firmware''"]
      n [of "''--no-dhcp''"]
    by (simp add: c)
qed

lemma props_loop_step:
  "i + 1 < length args \<Longrightarrow>
   props_loop args i props = props_loop args (i + 2) (props(drop 2 (args ! i) \<mapsto> args ! (i + 1)))"
  by (subst props_loop.simps) simp

lemma props_loop_last: "i + 1 = length args \<Longrightarrow> props_loop args i props = Inl IndexError"
  by (subst props_loop.simps) simp

lemma props_loop_end: "i = length args \<Longrightarrow> props_loop args i props = Inr props"
  by (subst props_loop.simps) simp

lemma props_loop_odd:
  "i \<le> length args \<Longrightarrow> odd (length args - i) \<Longrightarrow> props_loop args i props = Inl IndexError"
proof (induction args i props rule: props_loop.induct)
  case (1 args i props)
  show ?case
  proof (cases "i + 1 < length args")
    case True
    with "1.prems" have o: "odd (length args - (i + 2))" by simp
    from True have "props_loop args (i + 2) (props(drop 2 (args ! i) \<mapsto> args ! (i + 1))) = Inl IndexError"
      by (intro "1.IH" o) simp_all
    with True show ?thesis
      by (simp only: props_loop_step)
  next
    case False
    with "1.prems" have "i + 1 = length args"
      by (cases "i = length args") auto
    then show ?thesis
      by (rule props_loop_last)
  qed
qed

lemma props_loop_even:
  "i \<le> length args \<Longrightarrow> even (length args - i) \<Longrightarrow> \<exists>m. props_loop args i props = Inr m"
proof (induction args i props rule: props_loop.induct)
  case (1 args i props)
  show ?case
  proof (cases "i + 1 < length args")
    case True
    with "1.prems" have e: "even (length args - (i + 2))" by simp
    from True have "\<exists>m. props_loop args (i + 2) (props(drop 2 (args ! i) \<mapsto> args ! (i + 1))) = Inr m"
      by (intro "1.IH" e) simp_all
    with True show ?thesis
      by (simp only: props_loop_step)
  next
    case False
    have "i = length args"
    proof (rule ccontr)
      assume "i \<noteq> length args"
      with False "1.prems" have "length args - i = 1" by simp
      with "1.prems" show False by simp
    qed
    then show ?thesis
      by (simp add: props_loop_end)
  qed
qed

lemma cmdline_props_odd: "odd (length args) \<Longrightarrow> cmdline_props args = Inl IndexError"
  using props_loop_odd [of 0 args Map.empty] by (simp add: cmdline_props_def)

lemma cmdline_props_even: "even (length args) \<Longrightarrow> \<exists>props. cmdline_props args = Inr props"
  using props_loop_even [of 0 args Map.empty] by (simp add: cmdline_props_def)

lemma decimal_literal_12: "decimal_literal ''12'' = Some 12"
  by (simp add: decimal_literal_def strip_space_def is_space_def is_digit_def digits_val_def
      digit_val_def)

lemma decimal_literal_34: "decimal_literal ''34'' = Some 34"
  by (simp add: decimal_literal_def strip_space_def is_space_def is_digit_def digits_val_def
      digit_val_def)

lemma props_vm1:
  "cmdline_props [''--cpus'', ''2'', ''--name'', ''vm1'']
     = Inr [''cpus'' \<mapsto> ''2'', ''name'' \<mapsto> ''vm1'']"
  by (simp add: cmdline_props_def props_loop.simps)

lemma props_vm2:
  "cmdline_props [''--name'', ''vm2''] = Inr [''name'' \<mapsto> ''vm2'']"
  by (simp add: cmdline_props_def props_loop.simps)

lemma py_split_on_line:
  "sep \<notin> set l \<Longrightarrow> py_split_on sep (l @ sep # rest) = l # py_split_on sep rest"
  by (induction l) auto

lemma py_split_on_lines:
  "\<forall>d\<in>set ds. sep \<notin> set d \<Longrightarrow> py_split_on sep (concat (map (\<lambda>d. d @ [sep]) ds)) = ds @ [[]]"
  by (induction ds) (simp_all add: py_split_on_line)

lemma list_output_lines:
  "py_split_on (CHR 0x0A) list_output =
     [''PID NAME STATE'', ''--------------'', ''12 vm1 running'', ''34 vm2 paused'', []]"
  by (simp add: list_output_def)

lemma split_line_12: "py_split ''12 vm1 running'' = [''12'', ''vm1'', ''running'']"
  by (simp add: py_split_def is_space_def)

lemma split_line_34: "py_split ''34 vm2 paused'' = [''34'', ''vm2'', ''paused'']"
  by (simp add: py_split_def is_space_def)

lemma execute_completed:
  "Spawned_argv argv \<in> set (fst (execute h c cmd args False)) \<Longrightarrow>
   run_proc h argv = Completed out [] \<Longrightarrow>
   snd (execute h c cmd args False) = Inr (Some out)"
  by (auto simp: execute_def Let_def split: if_splits proc_outcome.splits)

lemma list_instances_fst:
  "fst (list_instances h c run_sel rootfs_sel) =
   fst (execute h c ''list''
          ((if truthy run_sel then [PStr ''--run''] else [])
           @ (if truthy rootfs_sel then [PStr ''--rootfs''] else [])) False)"
  by (simp add: list_instances_def Let_def)

lemma list_instances_snd:
  "snd (execute h c ''list''
          ((if truthy run_sel then [PStr ''--run''] else [])
           @ (if truthy rootfs_sel then [PStr ''--rootfs''] else [])) False) = Inr (Some text) \<Longrightarrow>
   snd (list_instances h c run_sel rootfs_sel) =
     (if text \<noteq> [] then
        (if pipes_text h then
           (let results = py_split_on (CHR 0x0A) text in
            if length results > 2
            then instances_loop h [] (drop 2 (take (length results - 1) results))
            else Inr [])
         else Inl TypeError)
      else Inr [])"
  by (cases "truthy run_sel"; cases "truthy rootfs_sel") (simp_all add: list_instances_def Let_def)

lemma instance_of_line_ok:
  assumes "3 \<le> length (py_split d)"
    and "int_of_str h (py_split d ! 0) = Some n"
    and "cmdline_of h n = Some cl"
    and "cmdline_props (drop 2 cl) = Inr props"
    and "class_error h props = None"
  shows "\<exists>inst. instance_of_line h d = Inr inst
           \<and> inst ''pid'' = Some (py_split d ! 0)
           \<and> inst ''name'' = Some (py_split d ! 1)
           \<and> inst ''state'' = Some (py_split d ! 2)"
proof -
  from assms(2-5) have "get_instance_info h (PidStr (py_split d ! 0)) = Inr props"
    by (simp add: get_instance_info_def pid_number_def)
  moreover from assms(1) have "py_split d \<noteq> []"
    by auto
  ultimately show ?thesis
    using assms(1) by (simp add: instance_of_line_def Let_def)
qed

lemma instances_loop_ok:
  assumes "\<forall>d\<in>set ds. \<exists>inst. instance_of_line h d = Inr inst \<and> P d inst"
  shows "\<exists>recs. instances_loop h acc ds = Inr (acc @ recs) \<and> length recs = length ds
           \<and> (\<forall>i<length ds. P (ds ! i) (recs ! i))"
  using assms
proof (induction ds arbitrary: acc)
  case Nil
  then show ?case by simp
next
  case (Cons d ds)
  then obtain inst where i: "instance_of_line h d = Inr inst" and p: "P d inst"
    by auto
  from Cons obtain recs where r: "instances_loop h (acc @ [inst]) ds = Inr ((acc @ [inst]) @ recs)"
    and l: "length recs = length ds" and a: "\<forall>i<length ds. P (ds ! i) (recs ! i)"
    by (metis list.set_intros(2))
  have "\<forall>i<length (d # ds). P ((d # ds) ! i) ((inst # recs) ! i)"
    using p a by (auto simp: nth_Cons split: nat.splits)
  with i r l show ?case
    by (intro exI [of _ "inst # recs"]) simp
qed

text \<open>
  Two ways in which the interpreter ends a listing or a lookup: pipes that deliver
  \<^verbatim>\<open>bytes\<close> make the split of a non-empty output raise \<^verbatim>\<open>TypeError\<close>, and
  an error of \<^verbatim>\<open>type\<close> leaves the lookup as it is raised.
\<close>

lemma list_instances_bytes:
  assumes "Spawned_argv argv \<in> set (fst (list_instances h c run_sel rootfs_sel))"
    and "run_proc h argv = Completed text []"
    and "text \<noteq> []"
    and "\<not> pipes_text h"
  shows "snd (list_instances h c run_sel rootfs_sel) = Inl TypeError"
proof -
  let ?params = "(if truthy run_sel then [PStr ''--run''] else [])
                 @ (if truthy rootfs_sel then [PStr ''--rootfs''] else [])"
  from assms(1) have "Spawned_argv argv \<in> set (fst (execute h c ''list'' ?params False))"
    by (simp only: list_instances_fst)
  with assms(2) have "snd (execute h c ''list'' ?params False) = Inr (Some text)"
    by (simp add: execute_completed)
  with assms(3,4) show ?thesis
    by (simp add: list_instances_snd)
qed

lemma get_instance_info_class_error:
  assumes "pid_number h pid = Some n"
    and "cmdline_of h n = Some cl"
    and "cmdline_props (drop 2 cl) = Inr props"
    and "class_error h props = Some e"
  shows "get_instance_info h pid = Inl e"
  using assms by (simp add: get_instance_info_def)

section \<open>The privilege gate\<close>

text \<open>
  Claim C7. Whenever the execution primitive is entered on a host whose effective user id is
  not zero, by a client with no elevation helper configured (the helper is
  \<^verbatim>\<open>None\<close> or otherwise false), it spawns no process, raises nothing and returns
  no result: the trace holds the entry into the primitive and nothing else.
\<close>

theorem execute_unprivileged_noop:
  assumes "euid h = Some u" and "u \<noteq> 0" and "\<not> truthy (root_helper c)"
  shows "execute h c cmd args background = ([Invoked cmd args background], Inr None)"
  using assms by (simp add: execute_def)

theorem execute_unprivileged_noop_witness:
  "euid user_host = Some 1000 \<and> (1000::nat) \<noteq> 0 \<and> \<not> truthy (root_helper plain_client)
   \<and> execute user_host plain_client ''list'' [PStr ''--run''] False
       = ([Invoked ''list'' [PStr ''--run''] False], Inr None)"
proof -
  have e: "euid user_host = Some 1000" by (simp add: user_host_def)
  have n: "(1000::nat) \<noteq> 0" by simp
  have r: "\<not> truthy (root_helper plain_client)" by (simp add: plain_client_def)
  from execute_unprivileged_noop [OF e n r] e n r show ?thesis by blast
qed

section \<open>Foreground execution\<close>

text \<open>
  Claim C8. A foreground call of the execution primitive raises the execution error with
  message \<open>m\<close> exactly when it spawned its process and the process ran to its end with
  the non-empty standard error \<open>m\<close>, so the error carries the captured text unchanged;
  and when the spawned process ended with an empty standard error the call returns its
  captured standard output.
\<close>

theorem execute_foreground_error_iff:
  "(snd (execute h c cmd args False) = Inl (LKVMException m)
      \<longleftrightarrow> (\<exists>argv out. Spawned_argv argv \<in> set (fst (execute h c cmd args False))
                      \<and> run_proc h argv = Completed out m \<and> m \<noteq> []))
   \<and> (Spawned_argv argv \<in> set (fst (execute h c cmd args False))
        \<and> run_proc h argv = Completed out []
      \<longrightarrow> snd (execute h c cmd args False) = Inr (Some out))"
  by (auto simp: execute_def Let_def split: if_splits proc_outcome.splits)

theorem execute_foreground_error_iff_witness:
  "Spawned_argv [''/usr/bin/lkvm'', ''list'']
     \<in> set (fst (execute failing_host plain_client ''list'' [] False))
   \<and> run_proc failing_host [''/usr/bin/lkvm'', ''list''] = Completed ''partial'' ''boom''
   \<and> snd (execute failing_host plain_client ''list'' [] False) = Inl (LKVMException ''boom'')
   \<and> Spawned_argv [''sudo'', ''/usr/bin/lkvm'', ''list'']
     \<in> set (fst (execute user_host sudo_client ''list'' [] False))
   \<and> run_proc user_host [''sudo'', ''/usr/bin/lkvm'', ''list''] = Completed ''out'' []
   \<and> snd (execute user_host sudo_client ''list'' [] False) = Inr (Some ''out'')"
proof -
  have s1: "Spawned_argv [''/usr/bin/lkvm'', ''list'']
              \<in> set (fst (execute failing_host plain_client ''list'' [] False))"
    by (simp add: execute_def failing_host_def plain_client_def LKVM_PATH_def)
  have p1: "run_proc failing_host [''/usr/bin/lkvm'', ''list''] = Completed ''partial'' ''boom''"
    by (simp add: failing_host_def)
  have e1: "''boom'' \<noteq> []"
    by simp
  have s2: "Spawned_argv [''sudo'', ''/usr/bin/lkvm'', ''list'']
              \<in> set (fst (execute user_host sudo_client ''list'' [] False))"
    by (simp add: execute_def user_host_def sudo_client_def LKVM_PATH_def)
  have p2: "run_proc user_host [''sudo'', ''/usr/bin/lkvm'', ''list''] = Completed ''out'' []"
    by (simp add: user_host_def)
  from execute_foreground_error_iff [of failing_host plain_client "''list''" "[]" "''boom''"] s1 p1 e1
  have r1: "snd (execute failing_host plain_client ''list'' [] False) = Inl (LKVMException ''boom'')"
    by blast
  from execute_foreground_error_iff [of user_host sudo_client "''list''" "[]" _
      "[''sudo'', ''/usr/bin/lkvm'', ''list'']" "''out''"] s2 p2
  have r2: "snd (execute user_host sudo_client ''list'' [] False) = Inr (Some ''out'')"
    by blast
  from s1 p1 r1 s2 p2 r2 show ?thesis by blast
qed

section \<open>Calls without a selector\<close>

text \<open>
  Claim C1, as the code has it. For every call of pause, resume or stop in which neither the
  \<open>all\<close> selector nor the \<open>name\<close> is true, the operation never enters the
  execution primitive, spawns nothing, raises nothing and returns \<^verbatim>\<open>None\<close>.
  The operations run and balloon have no \<open>all\<close> selector and do not test the name:
  they enter the execution primitive with the vector they built, whatever the name is.
\<close>

theorem selector_noop:
  "(\<not> truthy all_sel \<and> \<not> truthy name_sel \<longrightarrow>
      pause h c all_sel name_sel = ([], Inr ())
      \<and> resume h c all_sel name_sel = ([], Inr ())
      \<and> stop h c all_sel name_sel = ([], Inr ()))
   \<and> (\<exists>rest. fst (run h c a) = Invoked ''run'' (run_params a) True # rest)
   \<and> (\<exists>rest. fst (balloon h c name_sel amount balloon_options)
          = Invoked ''balloon'' (balloon_params name_sel amount balloon_options) False # rest)"
  by (simp add: pause_def resume_def stop_def run_def balloon_def returning_none_fst execute_enters)

theorem selector_noop_witness:
  "\<not> truthy (PBool False) \<and> \<not> truthy PNone
   \<and> pause root_host plain_client (PBool False) PNone = ([], Inr ())
   \<and> resume root_host plain_client (PBool False) PNone = ([], Inr ())
   \<and> stop root_host plain_client (PBool False) PNone = ([], Inr ())"
proof -
  have a: "\<not> truthy (PBool False)" by simp
  have n: "\<not> truthy PNone" by simp
  from selector_noop [of "PBool False" PNone root_host plain_client] a n
  show ?thesis by blast
qed

text \<open>
  On the root host, a call of run that supplies no name (and has no \<open>all\<close> selector to
  supply) enters the primitive and spawns the hypervisor through the shell.
\<close>

theorem run_without_name_counterexample:
  "arg_name sample_args = PNone
   \<and> run root_host plain_client sample_args =
       ([Invoked ''run'' (run_params sample_args) True,
         Spawned_shell (''nohup /usr/bin/lkvm run --cpus 2 --mem 512 --shmem 16MB --console serial''
            @ '' --kernel /boot/vmlinuz --params '' @ [CHR 0x22] @ ''root=/dev/vda rw'' @ [CHR 0x22]
            @ '' --network virtio >/dev/null 2>&1'')],
        Inr ())"
proof -
  have "arg_name sample_args = PNone" by (simp add: sample_args_def)
  moreover have "execute root_host plain_client ''run'' (run_params sample_args) True =
       ([Invoked ''run'' (run_params sample_args) True,
         Spawned_shell (''nohup /usr/bin/lkvm run --cpus 2 --mem 512 --shmem 16MB --console serial''
            @ '' --kernel /boot/vmlinuz --params '' @ [CHR 0x22] @ ''root=/dev/vda rw'' @ [CHR 0x22]
            @ '' --network virtio >/dev/null 2>&1'')],
        Inr None)"
    unfolding execute_def sample_run_params
    by (simp add: root_host_def plain_client_def LKVM_PATH_def nat_digits_2 nat_digits_512)
  ultimately show ?thesis by (simp add: run_def returning_none_def)
qed

section \<open>The balloon flags\<close>

text \<open>
  Claim C6. Every balloon call enters the execution primitive, in the foreground, with the
  vector \<open>name <name>\<close> followed by \<open>--inflate <amount>\<close> when the mode is the string
  \<open>inflate\<close>, by \<open>--deflate <amount>\<close> when the mode is the string \<open>deflate\<close>, and
  by nothing at all for every other mode.
\<close>

theorem balloon_flags:
  "(\<exists>rest. fst (balloon h c name_sel amount (PStr ''inflate''))
       = Invoked ''balloon'' [PStr ''name'', name_sel, PStr ''--inflate'', amount] False # rest)
   \<and> (\<exists>rest. fst (balloon h c name_sel amount (PStr ''deflate''))
       = Invoked ''balloon'' [PStr ''name'', name_sel, PStr ''--deflate'', amount] False # rest)
   \<and> (mode \<noteq> PStr ''inflate'' \<and> mode \<noteq> PStr ''deflate'' \<longrightarrow>
        (\<exists>rest. fst (balloon h c name_sel amount mode)
           = Invoked ''balloon'' [PStr ''name'', name_sel] False # rest))"
  using execute_enters [of h c "''balloon''" _ False]
  by (simp add: balloon_def balloon_params_def returning_none_fst)

theorem balloon_flags_witness:
  "PStr ''shrink'' \<noteq> PStr ''inflate'' \<and> PStr ''shrink'' \<noteq> PStr ''deflate''
   \<and> (\<exists>rest. fst (balloon user_host sudo_client (PStr ''vm1'') (PInt 512) (PStr ''shrink''))
         = Invoked ''balloon'' [PStr ''name'', PStr ''vm1''] False # rest)"
proof -
  have a: "PStr ''shrink'' \<noteq> PStr ''inflate''" by simp
  have b: "PStr ''shrink'' \<noteq> PStr ''deflate''" by simp
  from balloon_flags [of user_host sudo_client "PStr ''vm1''" "PInt 512" "PStr ''shrink''"] a b
  show ?thesis by blast
qed

section \<open>The flags of run and sandbox\<close>

text \<open>
  Claim C4, as the code has it. The vector that run and sandbox build is, in this order:
  \<open>--cpus\<close>, \<open>--mem\<close> and \<open>--shmem\<close> with their values; then each of the optional
  flags name, console, balloon, vnc, gtk, sdl, rng, 9p, disk, dev, tty, sandbox and
  hugetlbs exactly when its gate holds; then \<open>--kernel\<close> and \<open>--params\<close> with their
  values; then initrd and firmware exactly when their gates hold; then \<open>--network\<close>
  with its value; then no-dhcp exactly when its gate holds. The gate of an optional flag
  is that its input is true, except for console, whose gate is that the value is one of
  \<open>serial\<close>, \<open>virtio\<close>, \<open>hv\<close>: a console value that is true but outside that set
  adds nothing. Hence, when no value supplied by the caller is itself spelled as one of
  the optional flags, each optional flag occurs in the vector if and only if its gate
  holds.
\<close>

theorem run_params_flags:
  assumes "build = run_params \<or> build = sandbox_params"
  shows "build a =
     [PStr ''--cpus'', arg_cpus a, PStr ''--mem'', arg_mem a, PStr ''--shmem'', arg_shmem a]
     @ (if truthy (arg_name a) then [PStr ''--name'', arg_name a] else [])
     @ (if arg_console a \<in> set [PStr ''serial'', PStr ''virtio'', PStr ''hv'']
        then [PStr ''--console'', arg_console a] else [])
     @ (if truthy (arg_balloon a) then [PStr ''--balloon''] else [])
     @ (if truthy (arg_vnc a) then [PStr ''--vnc''] else [])
     @ (if truthy (arg_gtk a) then [PStr ''--gtk''] else [])
     @ (if truthy (arg_sdl a) then [PStr ''--sdl''] else [])
     @ (if truthy (arg_rng a) then [PStr ''--rng''] else [])
     @ (if truthy (arg_plan9 a) then [PStr ''--9p''] else [])
     @ (if truthy (arg_disk a) then [PStr ''--disk'', arg_disk a] else [])
     @ (if truthy (arg_dev a) then [PStr ''--dev'', arg_dev a] else [])
     @ (if truthy (arg_tty a) then [PStr ''--tty'', arg_tty a] else [])
     @ (if truthy (arg_sandbox a) then [PStr ''--sandbox'', arg_sandbox a] else [])
     @ (if truthy (arg_hugetlbs a) then [PStr ''--hugetlbs'', arg_hugetlbs a] else [])
     @ [PStr ''--kernel'', arg_kernel a, PStr ''--params'', PStr (quoted (arg_params a))]
     @ (if truthy (arg_initrd a) then [PStr ''--initrd'', arg_initrd a] else [])
     @ (if truthy (arg_firmware a) then [PStr ''--firmware'', arg_firmware a] else [])
     @ [PStr ''--network'', arg_network a]
     @ (if truthy (arg_no_dhcp a) then [PStr ''--no-dhcp''] else [])
   \<and> take 6 (build a) =
     [PStr ''--cpus'', arg_cpus a, PStr ''--mem'', arg_mem a, PStr ''--shmem'', arg_shmem a]
   \<and> ((\<forall>v \<in> {arg_cpus a, arg_mem a, arg_shmem a, arg_name a, arg_disk a, arg_dev a, arg_tty a,
               arg_sandbox a, arg_hugetlbs a, arg_kernel a, arg_initrd a, arg_firmware a,
               arg_network a}.
          v \<notin> PStr ` {''--name'', ''--console'', ''--balloon'', ''--vnc'', ''--gtk'', ''--sdl'',
                        ''--rng'', ''--9p'', ''--disk'', ''--dev'', ''--tty'', ''--sandbox'',
                        ''--hugetlbs'', ''--initrd'', ''--firmware'', ''--no-dhcp''})
      \<longrightarrow>
        (PStr ''--name'' \<in> set (build a) \<longleftrightarrow> truthy (arg_name a))
      \<and> (PStr ''--console'' \<in> set (build a) \<longleftrightarrow> arg_console a \<in> set [PStr ''serial'', PStr ''virtio'', PStr ''hv''])
      \<and> (PStr ''--balloon'' \<in> set (build a) \<longleftrightarrow> truthy (arg_balloon a))
      \<and> (PStr ''--vnc'' \<in> set (build a) \<longleftrightarrow> truthy (arg_vnc a))
      \<and> (PStr ''--gtk'' \<in> set (build a) \<longleftrightarrow> truthy (arg_gtk a))
      \<and> (PStr ''--sdl'' \<in> set (build a) \<longleftrightarrow> truthy (arg_sdl a))
      \<and> (PStr ''--rng'' \<in> set (build a) \<longleftrightarrow> truthy (arg_rng a))
      \<and> (PStr ''--9p'' \<in> set (build a) \<longleftrightarrow> truthy (arg_plan9 a))
      \<and> (PStr ''--disk'' \<in> set (build a) \<longleftrightarrow> truthy (arg_disk a))
      \<and> (PStr ''--dev'' \<in> set (build a) \<longleftrightarrow> truthy (arg_dev a))
      \<and> (PStr ''--tty'' \<in> set (build a) \<longleftrightarrow> truthy (arg_tty a))
      \<and> (PStr ''--sandbox'' \<in> set (build a) \<longleftrightarrow> truthy (arg_sandbox a))
      \<and> (PStr ''--hugetlbs'' \<in> set (build a) \<longleftrightarrow> truthy (arg_hugetlbs a))
      \<and> (PStr ''--initrd'' \<in> set (build a) \<longleftrightarrow> truthy (arg_initrd a))
      \<and> (PStr ''--firmware'' \<in> set (build a) \<longleftrightarrow> truthy (arg_firmware a))
      \<and> (PStr ''--no-dhcp'' \<in> set (build a) \<longleftrightarrow> truthy (arg_no_dhcp a)))"
proof -
  from assms have b: "build a = run_params a"
    by (auto simp: sandbox_params_run_params)
  have "take 6 (run_params a) =
     [PStr ''--cpus'', arg_cpus a, PStr ''--mem'', arg_mem a, PStr ''--shmem'', arg_shmem a]"
    unfolding run_params_segments by simp
  then show ?thesis
    unfolding b using run_params_segments [of a] run_params_membership [of a] by blast
qed

theorem run_params_flags_witness:
  "take 6 (sandbox_params sample_args) =
     [PStr ''--cpus'', PInt 2, PStr ''--mem'', PInt 512, PStr ''--shmem'', PStr ''16MB'']
   \<and> PStr ''--console'' \<in> set (sandbox_params sample_args)
   \<and> PStr ''--name'' \<notin> set (sandbox_params sample_args)
   \<and> PStr ''--balloon'' \<notin> set (sandbox_params sample_args)"
proof -
  have b: "sandbox_params = run_params \<or> sandbox_params = sandbox_params" by simp
  have h: "\<forall>v \<in> {arg_cpus sample_args, arg_mem sample_args, arg_shmem sample_args, arg_name sample_args, arg_disk sample_args, arg_dev sample_args, arg_tty sample_args,
               arg_sandbox sample_args, arg_hugetlbs sample_args, arg_kernel sample_args, arg_initrd sample_args, arg_firmware sample_args,
               arg_network sample_args}.
          v \<notin> PStr ` {''--name'', ''--console'', ''--balloon'', ''--vnc'', ''--gtk'', ''--sdl'',
                        ''--rng'', ''--9p'', ''--disk'', ''--dev'', ''--tty'', ''--sandbox'',
                        ''--hugetlbs'', ''--initrd'', ''--firmware'', ''--no-dhcp''}"
    by (simp add: sample_args_def)
  have v: "arg_cpus sample_args = PInt 2 \<and> arg_mem sample_args = PInt 512
           \<and> arg_shmem sample_args = PStr ''16MB''
           \<and> arg_console sample_args \<in> set [PStr ''serial'', PStr ''virtio'', PStr ''hv'']
           \<and> \<not> truthy (arg_name sample_args) \<and> \<not> truthy (arg_balloon sample_args)"
    by (simp add: sample_args_def)
  note f = run_params_flags [OF b, of sample_args]
  note t = f [THEN conjunct2, THEN conjunct1]
  note m = f [THEN conjunct2, THEN conjunct2, THEN mp, OF h]
  note m1 = m [THEN conjunct1]
  note m2 = m [THEN conjunct2, THEN conjunct1]
  note m3 = m [THEN conjunct2, THEN conjunct2, THEN conjunct1]
  from t m1 m2 m3 v show ?thesis
    by simp
qed

text \<open>
  A console value that is true but not one of the three accepted ones: the input is
  present and the console flag is not in the vector.
\<close>

theorem console_truthy_counterexample:
  "truthy (arg_console telnet_args) \<and> PStr ''--console'' \<notin> set (run_params telnet_args)"
  by (simp add: run_params_segments telnet_args_def sample_args_def quoted_def)

section \<open>The console gate\<close>

text \<open>
  Claim C5. In the vector that run and sandbox build, a console value outside the set
  \<open>serial\<close>, \<open>virtio\<close>, \<open>hv\<close> leaves no trace: the vector is the one built when
  the console is \<^verbatim>\<open>None\<close>. A console value inside the set puts
  \<open>--console <value>\<close> into the vector: the vector is the one built for the console
  \<^verbatim>\<open>None\<close> with these two elements inserted. And when no other value supplied by the
  caller is itself spelled \<open>--console\<close>, the flag occurs in the vector if and only if the
  console value is inside the set.
\<close>

theorem console_gate:
  assumes "build = run_params \<or> build = sandbox_params"
  shows "(arg_console a \<notin> set [PStr ''serial'', PStr ''virtio'', PStr ''hv'']
            \<longrightarrow> build a = build (a\<lparr>arg_console := PNone\<rparr>))
       \<and> (arg_console a \<in> set [PStr ''serial'', PStr ''virtio'', PStr ''hv'']
            \<longrightarrow> (\<exists>pre post. build a = pre @ [PStr ''--console'', arg_console a] @ post
                    \<and> build (a\<lparr>arg_console := PNone\<rparr>) = pre @ post))
       \<and> (PStr ''--console'' \<notin> {arg_cpus a, arg_mem a, arg_shmem a, arg_name a, arg_disk a,
              arg_dev a, arg_tty a, arg_sandbox a, arg_hugetlbs a, arg_kernel a, arg_initrd a,
              arg_firmware a, arg_network a}
            \<longrightarrow> (PStr ''--console'' \<in> set (build a)
                   \<longleftrightarrow> arg_console a \<in> set [PStr ''serial'', PStr ''virtio'', PStr ''hv'']))"
proof -
  from assms have b: "\<And>x. build x = run_params x"
    by (auto simp: sandbox_params_run_params)
  have out: "build a = build (a\<lparr>arg_console := PNone\<rparr>)"
    if "arg_console a \<notin> set [PStr ''serial'', PStr ''virtio'', PStr ''hv'']"
    using that unfolding b run_params_segments by simp
  have ins: "\<exists>pre post. build a = pre @ [PStr ''--console'', arg_console a] @ post
                    \<and> build (a\<lparr>arg_console := PNone\<rparr>) = pre @ post"
    if v: "arg_console a \<in> set [PStr ''serial'', PStr ''virtio'', PStr ''hv'']"
  proof -
    define pre where "pre =
       [PStr ''--cpus'', arg_cpus a, PStr ''--mem'', arg_mem a, PStr ''--shmem'', arg_shmem a]
       @ (if truthy (arg_name a) then [PStr ''--name'', arg_name a] else [])"
    define post where "post = drop (length pre) (run_params (a\<lparr>arg_console := PNone\<rparr>))"
    have n: "run_params (a\<lparr>arg_console := PNone\<rparr>) = pre @ post"
      unfolding post_def pre_def run_params_segments by simp
    have "run_params a = pre @ [PStr ''--console'', arg_console a] @ post"
      using v unfolding post_def pre_def run_params_segments by simp
    with n show ?thesis unfolding b by blast
  qed
  have mem: "PStr ''--console'' \<in> set (build a)
                   \<longleftrightarrow> arg_console a \<in> set [PStr ''serial'', PStr ''virtio'', PStr ''hv'']"
    if "PStr ''--console'' \<notin> {arg_cpus a, arg_mem a, arg_shmem a, arg_name a, arg_disk a,
              arg_dev a, arg_tty a, arg_sandbox a, arg_hugetlbs a, arg_kernel a, arg_initrd a,
              arg_firmware a, arg_network a}"
    using that unfolding b run_params_segments set_append mem_set_if Un_iff
    by (simp add: quoted_def)
  from out ins mem show ?thesis by blast
qed

theorem console_gate_witness:
  "arg_console telnet_args \<notin> set [PStr ''serial'', PStr ''virtio'', PStr ''hv'']
   \<and> run_params telnet_args = run_params (telnet_args\<lparr>arg_console := PNone\<rparr>)
   \<and> PStr ''--console'' \<notin> set (run_params telnet_args)
   \<and> arg_console sample_args \<in> set [PStr ''serial'', PStr ''virtio'', PStr ''hv'']
   \<and> (\<exists>pre post. sandbox_params sample_args = pre @ [PStr ''--console'', PStr ''serial''] @ post
          \<and> sandbox_params (sample_args\<lparr>arg_console := PNone\<rparr>) = pre @ post)
   \<and> PStr ''--console'' \<in> set (sandbox_params sample_args)"
proof -
  have r: "run_params = run_params \<or> run_params = sandbox_params" by simp
  have s: "sandbox_params = run_params \<or> sandbox_params = sandbox_params" by simp
  have t: "arg_console telnet_args \<notin> set [PStr ''serial'', PStr ''virtio'', PStr ''hv'']"
    by (simp add: telnet_args_def)
  have v: "arg_console sample_args \<in> set [PStr ''serial'', PStr ''virtio'', PStr ''hv'']"
    by (simp add: sample_args_def)
  have c: "arg_console sample_args = PStr ''serial''"
    by (simp add: sample_args_def)
  have n1: "PStr ''--console'' \<notin> {arg_cpus telnet_args, arg_mem telnet_args, arg_shmem telnet_args,
              arg_name telnet_args, arg_disk telnet_args, arg_dev telnet_args, arg_tty telnet_args,
              arg_sandbox telnet_args, arg_hugetlbs telnet_args, arg_kernel telnet_args,
              arg_initrd telnet_args, arg_firmware telnet_args, arg_network telnet_args}"
    by (simp add: telnet_args_def sample_args_def)
  have n2: "PStr ''--console'' \<notin> {arg_cpus sample_args, arg_mem sample_args, arg_shmem sample_args,
              arg_name sample_args, arg_disk sample_args, arg_dev sample_args, arg_tty sample_args,
              arg_sandbox sample_args, arg_hugetlbs sample_args, arg_kernel sample_args,
              arg_initrd sample_args, arg_firmware sample_args, arg_network sample_args}"
    by (simp add: sample_args_def)
  from console_gate [OF r, of telnet_args] t n1
  have a: "run_params telnet_args = run_params (telnet_args\<lparr>arg_console := PNone\<rparr>)
           \<and> PStr ''--console'' \<notin> set (run_params telnet_args)"
    by blast
  from console_gate [OF s, of sample_args] v n2
  have b: "(\<exists>pre post. sandbox_params sample_args = pre @ [PStr ''--console'', arg_console sample_args] @ post
          \<and> sandbox_params (sample_args\<lparr>arg_console := PNone\<rparr>) = pre @ post)
          \<and> PStr ''--console'' \<in> set (sandbox_params sample_args)"
    by blast
  from t v a b show ?thesis unfolding c by blast
qed

section \<open>Run and sandbox build the same vector\<close>

text \<open>
  Claim C9. For the same arguments, run and sandbox build the same argument vector, in which
  the kernel parameters stand after \<open>--params\<close> as one element, their text between two
  double-quote characters; both hand the vector to the execution primitive in background
  mode, and the two calls differ only in the subcommand, \<open>run\<close> or \<open>sandbox\<close>.
\<close>

theorem run_sandbox_same_vector:
  "sandbox_params a = run_params a
   \<and> run h c a = returning_none (execute h c ''run'' (run_params a) True)
   \<and> sandbox h c a = returning_none (execute h c ''sandbox'' (run_params a) True)
   \<and> (\<exists>pre post. run_params a =
          pre @ [PStr ''--kernel'', arg_kernel a, PStr ''--params'',
                 PStr ([CHR 0x22] @ py_str (arg_params a) @ [CHR 0x22])] @ post)"
proof -
  define pre where "pre =
     [PStr ''--cpus'', arg_cpus a, PStr ''--mem'', arg_mem a, PStr ''--shmem'', arg_shmem a]
     @ (if truthy (arg_name a) then [PStr ''--name'', arg_name a] else [])
     @ (if arg_console a \<in> set [PStr ''serial'', PStr ''virtio'', PStr ''hv'']
        then [PStr ''--console'', arg_console a] else [])
     @ (if truthy (arg_balloon a) then [PStr ''--balloon''] else [])
     @ (if truthy (arg_vnc a) then [PStr ''--vnc''] else [])
     @ (if truthy (arg_gtk a) then [PStr ''--gtk''] else [])
     @ (if truthy (arg_sdl a) then [PStr ''--sdl''] else [])
     @ (if truthy (arg_rng a) then [PStr ''--rng''] else [])
     @ (if truthy (arg_plan9 a) then [PStr ''--9p''] else [])
     @ (if truthy (arg_disk a) then [PStr ''--disk'', arg_disk a] else [])
     @ (if truthy (arg_dev a) then [PStr ''--dev'', arg_dev a] else [])
     @ (if truthy (arg_tty a) then [PStr ''--tty'', arg_tty a] else [])
     @ (if truthy (arg_sandbox a) then [PStr ''--sandbox'', arg_sandbox a] else [])
     @ (if truthy (arg_hugetlbs a) then [PStr ''--hugetlbs'', arg_hugetlbs a] else [])"
  define post where "post =
     (if truthy (arg_initrd a) then [PStr ''--initrd'', arg_initrd a] else [])
     @ (if truthy (arg_firmware a) then [PStr ''--firmware'', arg_firmware a] else [])
     @ [PStr ''--network'', arg_network a]
     @ (if truthy (arg_no_dhcp a) then [PStr ''--no-dhcp''] else [])"
  have "run_params a =
          pre @ [PStr ''--kernel'', arg_kernel a, PStr ''--params'',
                 PStr ([CHR 0x22] @ py_str (arg_params a) @ [CHR 0x22])] @ post"
    unfolding pre_def post_def run_params_segments quoted_def
    by (simp only: append_assoc)
  then have "\<exists>pre post. run_params a =
          pre @ [PStr ''--kernel'', arg_kernel a, PStr ''--params'',
                 PStr ([CHR 0x22] @ py_str (arg_params a) @ [CHR 0x22])] @ post"
    by blast
  then show ?thesis
    by (simp add: sandbox_params_run_params run_def sandbox_def)
qed

section \<open>Command lines with an odd number of tokens\<close>

text \<open>
  Claim C10. When the command line of the process, after its first two tokens, has an odd
  number of tokens left, the detail lookup returns no record: the pairing of flags and
  values reads one past the end of the list and the lookup ends with
  \<^verbatim>\<open>IndexError\<close>. Whenever the lookup does return a record, the process exists and
  the number of tokens left is even.
\<close>

theorem odd_cmdline_no_record:
  "(pid_number h pid = Some n \<and> cmdline_of h n = Some cl \<and> odd (length (drop 2 cl))
      \<longrightarrow> get_instance_info h pid = Inl IndexError)
   \<and> (get_instance_info h pid = Inr inst
      \<longrightarrow> (\<exists>n cl. pid_number h pid = Some n \<and> cmdline_of h n = Some cl
             \<and> even (length (drop 2 cl))))"
proof (intro conjI impI)
  assume "pid_number h pid = Some n \<and> cmdline_of h n = Some cl \<and> odd (length (drop 2 cl))"
  then show "get_instance_info h pid = Inl IndexError"
    by (simp add: get_instance_info_def cmdline_props_odd)
next
  assume r: "get_instance_info h pid = Inr inst"
  then obtain n where n: "pid_number h pid = Some n"
    by (cases "pid_number h pid") (simp_all add: get_instance_info_def)
  with r obtain cl where c: "cmdline_of h n = Some cl"
    by (cases "cmdline_of h n") (simp_all add: get_instance_info_def)
  have "even (length (drop 2 cl))"
  proof (rule ccontr)
    assume "odd (length (drop 2 cl))"
    then have "cmdline_props (drop 2 cl) = Inl IndexError"
      by (rule cmdline_props_odd)
    with n c have "get_instance_info h pid = Inl IndexError"
      by (simp add: get_instance_info_def)
    with r show False by simp
  qed
  with n c show "\<exists>n cl. pid_number h pid = Some n \<and> cmdline_of h n = Some cl
      \<and> even (length (drop 2 cl))"
    by blast
qed

theorem odd_cmdline_no_record_witness:
  "pid_number odd_host (PidStr ''12'') = Some 12
   \<and> cmdline_of odd_host 12 = Some [''lkvm'', ''run'', ''--name'', ''vm1'', ''--balloon'']
   \<and> odd (length (drop 2 [''lkvm'', ''run'', ''--name'', ''vm1'', ''--balloon'']))
   \<and> get_instance_info odd_host (PidStr ''12'') = Inl IndexError
   \<and> get_instance_info root_host (PidStr ''12'') = Inr [''cpus'' \<mapsto> ''2'', ''name'' \<mapsto> ''vm1'']
   \<and> (\<exists>n cl. pid_number root_host (PidStr ''12'') = Some n \<and> cmdline_of root_host n = Some cl
          \<and> even (length (drop 2 cl)))"
proof -
  have p: "pid_number odd_host (PidStr ''12'') = Some 12"
    by (simp add: pid_number_def odd_host_def decimal_literal_12)
  have c: "cmdline_of odd_host 12 = Some [''lkvm'', ''run'', ''--name'', ''vm1'', ''--balloon'']"
    by (simp add: odd_host_def)
  have o: "odd (length (drop 2 [''lkvm'', ''run'', ''--name'', ''vm1'', ''--balloon'']))"
    by simp
  have g: "get_instance_info root_host (PidStr ''12'') = Inr [''cpus'' \<mapsto> ''2'', ''name'' \<mapsto> ''vm1'']"
    by (simp add: get_instance_info_def pid_number_def decimal_literal_12 root_host_def props_vm1)
  from odd_cmdline_no_record [of odd_host "PidStr ''12''" 12 _ _] p c o
  have a: "get_instance_info odd_host (PidStr ''12'') = Inl IndexError"
    by blast
  from odd_cmdline_no_record [of root_host "PidStr ''12''" _ _ "[''cpus'' \<mapsto> ''2'', ''name'' \<mapsto> ''vm1'']"] g
  have b: "\<exists>n cl. pid_number root_host (PidStr ''12'') = Some n \<and> cmdline_of root_host n = Some cl
          \<and> even (length (drop 2 cl))"
    by blast
  from p c o a g b show ?thesis by blast
qed

section \<open>A process that has exited\<close>

text \<open>
  Claim C2. On the Python 2 host whose list output still names process 34 while the
  process table no longer has it, the detail lookup, and with it the whole listing, ends with
  \<^verbatim>\<open>NameError\<close> for the unbound name \<^verbatim>\<open>NoSuchProcess\<close>; the execution error
  \<open>PID 34 not found\<close> that the handler was written to raise is not what the caller gets.
\<close>

theorem vanished_process_name_error:
  "cmdline_of stale_host 34 = None
   \<and> get_instance_info stale_host (PidStr ''34'') = Inl (NameError ''NoSuchProcess'')
   \<and> get_instance_info stale_host (PidStr ''34'') \<noteq> Inl (LKVMException ''PID 34 not found'')
   \<and> list_instances stale_host plain_client (PBool True) (PBool True) =
       ([Invoked ''list'' [PStr ''--run'', PStr ''--rootfs''] False,
         Spawned_argv [''/usr/bin/lkvm'', ''list'', ''--run'', ''--rootfs'']],
        Inl (NameError ''NoSuchProcess''))"
proof -
  have c: "cmdline_of stale_host 34 = None"
    by (simp add: stale_host_def)
  have g: "get_instance_info stale_host (PidStr ''34'') = Inl (NameError ''NoSuchProcess'')"
    by (simp add: get_instance_info_def pid_number_def decimal_literal_34 c stale_host_def)
  have g12: "get_instance_info stale_host (PidStr ''12'') = Inr [''cpus'' \<mapsto> ''2'', ''name'' \<mapsto> ''vm1'']"
    by (simp add: get_instance_info_def pid_number_def decimal_literal_12 stale_host_def props_vm1)
  have e: "execute stale_host plain_client ''list'' [PStr ''--run'', PStr ''--rootfs''] False =
       ([Invoked ''list'' [PStr ''--run'', PStr ''--rootfs''] False,
         Spawned_argv [''/usr/bin/lkvm'', ''list'', ''--run'', ''--rootfs'']],
        Inr (Some list_output))"
    by (simp add: execute_def stale_host_def plain_client_def LKVM_PATH_def)
  have n: "list_output \<noteq> []"
    by (simp add: list_output_def)
  have t: "pipes_text stale_host"
    by (simp add: stale_host_def)
  have l: "list_instances stale_host plain_client (PBool True) (PBool True) =
       ([Invoked ''list'' [PStr ''--run'', PStr ''--rootfs''] False,
         Spawned_argv [''/usr/bin/lkvm'', ''list'', ''--run'', ''--rootfs'']],
        Inl (NameError ''NoSuchProcess''))"
    by (simp add: list_instances_def e n t list_output_lines instance_of_line_def
        split_line_12 split_line_34 g g12)
  from c g l show ?thesis by simp
qed

section \<open>Parsing the list output\<close>

text \<open>
  Claim C3, as the code has it. Let the listing spawn its process, and let the process
  end with an empty standard error. If the output is empty, the listing returns the empty
  list and raises nothing. If the interpreter's pipes deliver \<^verbatim>\<open>str\<close> (Python 2),
  and the output is two header lines, then \<open>N\<close> data lines, each ended by a newline,
  and for every data line
  \<^item> the line has at least three fields,
  \<^item> \<^verbatim>\<open>int\<close> reads the first field as a process id,
  \<^item> that process is in the process table,
  \<^item> the tokens of its command line after the first two pair up into a dictionary
    (so their number is even), and
  \<^item> \<^verbatim>\<open>type\<close> creates the class from that dictionary without raising,

  then the listing returns exactly \<open>N\<close> records, in the order of the lines, and the
  record of a line has the first three fields of the line as its \<open>pid\<close>, \<open>name\<close>
  and \<open>state\<close>. Nothing is said here about an interpreter whose pipes deliver
  \<^verbatim>\<open>bytes\<close>, nor about a listing in which one of the lookups fails.
\<close>

theorem list_instances_records:
  assumes "Spawned_argv argv \<in> set (fst (list_instances h c run_sel rootfs_sel))"
  shows "(run_proc h argv = Completed [] []
            \<longrightarrow> snd (list_instances h c run_sel rootfs_sel) = Inr [])
       \<and> (pipes_text h
          \<and> run_proc h argv =
             Completed (h1 @ [CHR 0x0A] @ h2 @ [CHR 0x0A] @ concat (map (\<lambda>d. d @ [CHR 0x0A]) ds)) []
          \<and> CHR 0x0A \<notin> set h1 \<and> CHR 0x0A \<notin> set h2
          \<and> (\<forall>d\<in>set ds. CHR 0x0A \<notin> set d \<and> 3 \<le> length (py_split d)
                \<and> (\<exists>n cl props. int_of_str h (py_split d ! 0) = Some n
                       \<and> cmdline_of h n = Some cl
                       \<and> cmdline_props (drop 2 cl) = Inr props
                       \<and> class_error h props = None))
            \<longrightarrow> (\<exists>recs. snd (list_instances h c run_sel rootfs_sel) = Inr recs
                    \<and> length recs = length ds
                    \<and> (\<forall>i<length ds.
                          (recs ! i) ''pid'' = Some (py_split (ds ! i) ! 0)
                        \<and> (recs ! i) ''name'' = Some (py_split (ds ! i) ! 1)
                        \<and> (recs ! i) ''state'' = Some (py_split (ds ! i) ! 2))))"
proof (intro conjI impI)
  let ?params = "(if truthy run_sel then [PStr ''--run''] else [])
                 @ (if truthy rootfs_sel then [PStr ''--rootfs''] else [])"
  from assms have sp: "Spawned_argv argv \<in> set (fst (execute h c ''list'' ?params False))"
    by (simp only: list_instances_fst)
  {
    assume "run_proc h argv = Completed [] []"
    with sp have "snd (execute h c ''list'' ?params False) = Inr (Some [])"
      by (rule execute_completed)
    then show "snd (list_instances h c run_sel rootfs_sel) = Inr []"
      by (simp add: list_instances_snd)
  }
  {
    let ?text = "h1 @ [CHR 0x0A] @ h2 @ [CHR 0x0A] @ concat (map (\<lambda>d. d @ [CHR 0x0A]) ds)"
    assume a: "pipes_text h
          \<and> run_proc h argv = Completed ?text []
          \<and> CHR 0x0A \<notin> set h1 \<and> CHR 0x0A \<notin> set h2
          \<and> (\<forall>d\<in>set ds. CHR 0x0A \<notin> set d \<and> 3 \<le> length (py_split d)
                \<and> (\<exists>n cl props. int_of_str h (py_split d ! 0) = Some n
                       \<and> cmdline_of h n = Some cl
                       \<and> cmdline_props (drop 2 cl) = Inr props
                       \<and> class_error h props = None))"
    then have pt: "pipes_text h"
      and out: "run_proc h argv = Completed ?text []"
      and n1: "CHR 0x0A \<notin> set h1" and n2: "CHR 0x0A \<notin> set h2"
      and nd: "\<forall>d\<in>set ds. CHR 0x0A \<notin> set d"
      and ok: "\<forall>d\<in>set ds. 3 \<le> length (py_split d)
                \<and> (\<exists>n cl props. int_of_str h (py_split d ! 0) = Some n
                       \<and> cmdline_of h n = Some cl
                       \<and> cmdline_props (drop 2 cl) = Inr props
                       \<and> class_error h props = None)"
      by simp_all
    from sp out have ex: "snd (execute h c ''list'' ?params False) = Inr (Some ?text)"
      by (rule execute_completed)
    have lines: "py_split_on (CHR 0x0A) ?text = h1 # h2 # ds @ [[]]"
      using n1 n2 nd by (simp add: py_split_on_line py_split_on_lines)
    have slice: "drop 2 (take (length (h1 # h2 # ds @ [[]]) - 1) (h1 # h2 # ds @ [[]])) = ds"
      by simp
    have res: "snd (list_instances h c run_sel rootfs_sel) = instances_loop h [] ds"
      unfolding list_instances_snd [OF ex] lines Let_def slice using pt by simp
    from ok have "\<forall>d\<in>set ds. \<exists>inst. instance_of_line h d = Inr inst
           \<and> (inst ''pid'' = Some (py_split d ! 0)
             \<and> inst ''name'' = Some (py_split d ! 1)
             \<and> inst ''state'' = Some (py_split d ! 2))"
      using instance_of_line_ok by blast
    then have "\<exists>recs. instances_loop h [] ds = Inr ([] @ recs) \<and> length recs = length ds
           \<and> (\<forall>i<length ds. (recs ! i) ''pid'' = Some (py_split (ds ! i) ! 0)
                            \<and> (recs ! i) ''name'' = Some (py_split (ds ! i) ! 1)
                            \<and> (recs ! i) ''state'' = Some (py_split (ds ! i) ! 2))"
      by (rule instances_loop_ok)
    with res show "\<exists>recs. snd (list_instances h c run_sel rootfs_sel) = Inr recs
                    \<and> length recs = length ds
                    \<and> (\<forall>i<length ds.
                          (recs ! i) ''pid'' = Some (py_split (ds ! i) ! 0)
                        \<and> (recs ! i) ''name'' = Some (py_split (ds ! i) ! 1)
                        \<and> (recs ! i) ''state'' = Some (py_split (ds ! i) ! 2))"
      by simp
  }
qed

theorem list_instances_records_witness:
  "Spawned_argv [''/usr/bin/lkvm'', ''list'', ''--run'', ''--rootfs'']
     \<in> set (fst (list_instances root_host plain_client (PBool True) (PBool True)))
   \<and> pipes_text root_host
   \<and> run_proc root_host [''/usr/bin/lkvm'', ''list'', ''--run'', ''--rootfs''] = Completed list_output []
   \<and> (\<exists>recs. snd (list_instances root_host plain_client (PBool True) (PBool True)) = Inr recs
         \<and> length recs = 2
         \<and> (recs ! 0) ''pid'' = Some ''12'' \<and> (recs ! 0) ''name'' = Some ''vm1''
         \<and> (recs ! 0) ''state'' = Some ''running''
         \<and> (recs ! 1) ''pid'' = Some ''34'' \<and> (recs ! 1) ''name'' = Some ''vm2''
         \<and> (recs ! 1) ''state'' = Some ''paused'')"
proof -
  let ?ds = "[''12 vm1 running'', ''34 vm2 paused'']"
  have sp: "Spawned_argv [''/usr/bin/lkvm'', ''list'', ''--run'', ''--rootfs'']
     \<in> set (fst (list_instances root_host plain_client (PBool True) (PBool True)))"
    by (simp add: list_instances_fst execute_def root_host_def plain_client_def LKVM_PATH_def)
  have pt: "pipes_text root_host"
    by (simp add: root_host_def)
  have out: "run_proc root_host [''/usr/bin/lkvm'', ''list'', ''--run'', ''--rootfs''] =
      Completed (''PID NAME STATE'' @ [CHR 0x0A] @ ''--------------'' @ [CHR 0x0A]
                 @ concat (map (\<lambda>d. d @ [CHR 0x0A]) ?ds)) []"
    by (simp add: root_host_def list_output_def)
  have out': "run_proc root_host [''/usr/bin/lkvm'', ''list'', ''--run'', ''--rootfs''] =
      Completed list_output []"
    by (simp add: root_host_def)
  have n1: "CHR 0x0A \<notin> set ''PID NAME STATE''" by simp
  have n2: "CHR 0x0A \<notin> set ''--------------''" by simp
  have i12: "int_of_str root_host ''12'' = Some 12"
    by (simp add: root_host_def decimal_literal_12)
  have i34: "int_of_str root_host ''34'' = Some 34"
    by (simp add: root_host_def decimal_literal_34)
  have c12: "cmdline_of root_host 12 = Some [''lkvm'', ''run'', ''--cpus'', ''2'', ''--name'', ''vm1'']"
    by (simp add: root_host_def)
  have c34: "cmdline_of root_host 34 = Some [''lkvm'', ''run'', ''--name'', ''vm2'']"
    by (simp add: root_host_def)
  have ce: "\<And>props. class_error root_host props = None"
    by (simp add: root_host_def)
  have ok: "\<forall>d\<in>set ?ds. CHR 0x0A \<notin> set d \<and> 3 \<le> length (py_split d)
                \<and> (\<exists>n cl props. int_of_str root_host (py_split d ! 0) = Some n
                       \<and> cmdline_of root_host n = Some cl
                       \<and> cmdline_props (drop 2 cl) = Inr props
                       \<and> class_error root_host props = None)"
    using props_vm1 props_vm2
    by (simp add: split_line_12 split_line_34 i12 i34 c12 c34 ce)
  from list_instances_records [OF sp, of "''PID NAME STATE''" "''--------------''" ?ds] pt out n1 n2 ok
  obtain recs where r: "snd (list_instances root_host plain_client (PBool True) (PBool True)) = Inr recs"
    and l: "length recs = length ?ds"
    and f: "\<forall>i<length ?ds.
                (recs ! i) ''pid'' = Some (py_split (?ds ! i) ! 0)
              \<and> (recs ! i) ''name'' = Some (py_split (?ds ! i) ! 1)
              \<and> (recs ! i) ''state'' = Some (py_split (?ds ! i) ! 2)"
    by blast
  from f have f0: "(recs ! 0) ''pid'' = Some ''12'' \<and> (recs ! 0) ''name'' = Some ''vm1''
         \<and> (recs ! 0) ''state'' = Some ''running''"
    using split_line_12 by (drule_tac x = 0 in spec) simp
  from f have f1: "(recs ! 1) ''pid'' = Some ''34'' \<and> (recs ! 1) ''name'' = Some ''vm2''
         \<and> (recs ! 1) ''state'' = Some ''paused''"
    using split_line_34 by (drule_tac x = 1 in spec) simp
  from l have l2: "length recs = 2" by simp
  from sp pt out' r l2 f0 f1 show ?thesis by blast
qed

text \<open>
  On the Python 2 host where process 34 has exited, the output has the two header lines,
  two data lines and the final empty line, and the listing returns no record at all.
\<close>

theorem vanished_process_counterexample:
  "py_split_on (CHR 0x0A) list_output =
     [''PID NAME STATE'', ''--------------'', ''12 vm1 running'', ''34 vm2 paused'', []]
   \<and> run_proc stale_host [''sudo'', ''/usr/bin/lkvm'', ''list'', ''--run'', ''--rootfs'']
       = Completed list_output []
   \<and> snd (list_instances stale_host sudo_client (PBool True) (PBool True))
       = Inl (NameError ''NoSuchProcess'')"
proof -
  have g: "get_instance_info stale_host (PidStr ''34'') = Inl (NameError ''NoSuchProcess'')"
    by (simp add: get_instance_info_def pid_number_def decimal_literal_34 stale_host_def)
  have g12: "get_instance_info stale_host (PidStr ''12'') = Inr [''cpus'' \<mapsto> ''2'', ''name'' \<mapsto> ''vm1'']"
    by (simp add: get_instance_info_def pid_number_def decimal_literal_12 stale_host_def props_vm1)
  have e: "snd (execute stale_host sudo_client ''list'' [PStr ''--run'', PStr ''--rootfs''] False) =
        Inr (Some list_output)"
    by (simp add: execute_def stale_host_def sudo_client_def LKVM_PATH_def)
  have n: "list_output \<noteq> []"
    by (simp add: list_output_def)
  have t: "pipes_text stale_host"
    by (simp add: stale_host_def)
  have "snd (list_instances stale_host sudo_client (PBool True) (PBool True))
       = Inl (NameError ''NoSuchProcess'')"
    by (simp add: list_instances_def e n t list_output_lines instance_of_line_def
        split_line_12 split_line_34 g g12)
  moreover have "run_proc stale_host [''sudo'', ''/usr/bin/lkvm'', ''list'', ''--run'', ''--rootfs'']
       = Completed list_output []"
    by (simp add: stale_host_def)
  ultimately show ?thesis
    using list_output_lines by simp
qed

end
